theory Spec2Isabelle
  imports Complex_Main
begin

section \<open>The Adiabatic Flame Temperature notebook\<close>

text \<open>
  The notebook \<^verbatim>\<open>notebooks/Adiabatic Flame Temperature.ipynb\<close> is a linear sequence of
  cells. The cells that compute are embedded here one by one, in the order of the notebook.

  Numbers. Python's \<^verbatim>\<open>float\<close> values and the two \<^verbatim>\<open>int\<close> literals that are mixed with them
  are read as real numbers: \<^verbatim>\<open>4.233e-2\<close> is \<open>4.233 / 10 ^ 2\<close>, and every \<^verbatim>\<open>+\<close>, \<^verbatim>\<open>-\<close>,
  \<^verbatim>\<open>*\<close>, \<^verbatim>\<open>**\<close> is the exact operation. Rounding of binary floating point is not part of
  the model.

  Library calls. \<^verbatim>\<open>scipy.integrate.quad\<close> and \<^verbatim>\<open>scipy.optimize.brentq\<close> are not code of the
  notebook. They are parameters of the embedding, and what is assumed of them is written
  as the predicates \<open>quad_exact\<close> and \<open>brentq_spec\<close> below.
\<close>

subsection \<open>Errors and dictionary lookup\<close>

datatype error = KeyError | ValueError

text \<open>\<^verbatim>\<open>d[k]\<close> on a Python dict raises \<^verbatim>\<open>KeyError\<close> when the key is missing.\<close>

definition getitem :: "('k \<rightharpoonup> 'v) \<Rightarrow> 'k \<Rightarrow> error + 'v" where
  "getitem d k = (case d k of None \<Rightarrow> Inl KeyError | Some v \<Rightarrow> Inr v)"

subsection \<open>The global variables of the calculation\<close>

text \<open>
  The globals that the calculation reads: the dict \<^verbatim>\<open>n\<close> from species name to moles, the
  dict \<^verbatim>\<open>Cp\<close> from (species, phase) to a function of temperature, and the number
  \<^verbatim>\<open>DeltaH_Rxn\<close>. Every function below takes a record scheme, so whatever else the
  interpreter holds (the modules, the loop variable \<^verbatim>\<open>k\<close>, the global \<^verbatim>\<open>T\<close>) is the
  extension part of the record.
\<close>

record notebook =
  n :: "string \<rightharpoonup> real"
  Cp :: "string \<times> string \<rightharpoonup> (real \<Rightarrow> real)"
  DeltaH_Rxn :: real

text \<open>
  \<^verbatim>\<open>
  n = dict()
  n['CO2'] = 1
  n['H2O'] = 2
  n['N2'] = 3*(.79/0.21)
  \<close>
\<close>

definition n_cell :: "string \<rightharpoonup> real" where
  "n_cell = ((Map.empty(''CO2'' \<mapsto> 1))(''H2O'' \<mapsto> 2))(''N2'' \<mapsto> 3 * (0.79 / 0.21))"

text \<open>
  \<^verbatim>\<open>
  Cp = dict()
  Cp['CO2','g'] = lambda T: 36.11 + 4.233e-2*T - 2.887e-5*T**2 + 7.464e-9*T**3
  Cp['H2O','g'] = lambda T: 33.46 + 0.688e-2*T + 0.7604e-5*T**2 - 3.593e-9*T**3
  Cp['N2','g']  = lambda T: 29.00 + 0.2199e-2*T + 0.5723e-5*T**2 - 2.871e-9*T**3
  \<close>
  The three anonymous functions get names, after their keys.
\<close>

definition Cp_CO2_g :: "real \<Rightarrow> real" where
  "Cp_CO2_g T = 36.11 + 4.233 / 10 ^ 2 * T - 2.887 / 10 ^ 5 * T ^ 2 + 7.464 / 10 ^ 9 * T ^ 3"

definition Cp_H2O_g :: "real \<Rightarrow> real" where
  "Cp_H2O_g T = 33.46 + 0.688 / 10 ^ 2 * T + 0.7604 / 10 ^ 5 * T ^ 2 - 3.593 / 10 ^ 9 * T ^ 3"

definition Cp_N2_g :: "real \<Rightarrow> real" where
  "Cp_N2_g T = 29.00 + 0.2199 / 10 ^ 2 * T + 0.5723 / 10 ^ 5 * T ^ 2 - 2.871 / 10 ^ 9 * T ^ 3"

definition Cp_cell :: "string \<times> string \<rightharpoonup> (real \<Rightarrow> real)" where
  "Cp_cell =
     ((Map.empty((''CO2'', ''g'') \<mapsto> Cp_CO2_g))((''H2O'', ''g'') \<mapsto> Cp_H2O_g))
       ((''N2'', ''g'') \<mapsto> Cp_N2_g)"

text \<open>\<^verbatim>\<open>DeltaH_Rxn = -890400\<close>; the state once the three data cells have run.\<close>

definition the_notebook :: notebook where
  "the_notebook = \<lparr> n = n_cell, Cp = Cp_cell, DeltaH_Rxn = - 890400 \<rparr>"

text \<open>
  The reaction as the text of the notebook gives it, \<^verbatim>\<open>CH4 + 3 O2 -> CO2 + 2 H2O\<close>:
  every species with its coefficient, the reactants and then the products.
\<close>

definition reactants :: "(string \<times> real) list" where
  "reactants = [(''CH4'', 1), (''O2'', 3)]"

definition products :: "(string \<times> real) list" where
  "products = [(''CO2'', 1), (''H2O'', 2)]"

subsection \<open>The library functions\<close>

text \<open>
  \<^verbatim>\<open>integrate.quad(g, a, b)\<close> returns a pair: the value of the integral and an error
  estimate. \<^verbatim>\<open>brentq(g, a, b)\<close> returns a number or raises \<^verbatim>\<open>ValueError\<close>; an exception
  raised by \<^verbatim>\<open>g\<close> passes through it, so its argument is a function that may fail.
\<close>

type_synonym quad_fn = "(real \<Rightarrow> real) \<Rightarrow> real \<Rightarrow> real \<Rightarrow> real \<times> real"

type_synonym brentq_fn = "(real \<Rightarrow> error + real) \<Rightarrow> real \<Rightarrow> real \<Rightarrow> error + real"

subsection \<open>The functions of the notebook\<close>

text \<open>
  \<^verbatim>\<open>
  def DeltaH_Prod(T):
      h1,err = integrate.quad(Cp['CO2','g'],25,T)
      h2,err = integrate.quad(Cp['H2O','g'],25,T)
      h3,err = integrate.quad(Cp['N2','g'],25,T)
      return n['CO2']*h1 + n['H2O']*h2 + n['N2']*h3
  \<close>
  The function returns its value, or the error raised, together with the globals as they
  are when it returns. \<^verbatim>\<open>h1\<close>, \<^verbatim>\<open>h2\<close>, \<^verbatim>\<open>h3\<close> and \<^verbatim>\<open>err\<close> are local variables.
\<close>

definition DeltaH_Prod ::
  "quad_fn \<Rightarrow> 'a notebook_scheme \<Rightarrow> real \<Rightarrow> (error + real) \<times> 'a notebook_scheme" where
  "DeltaH_Prod quad s T =
     ((case getitem (Cp s) (''CO2'', ''g'') of Inl e \<Rightarrow> Inl e | Inr c1 \<Rightarrow>
       (case quad c1 25 T of (h1, err) \<Rightarrow>
       (case getitem (Cp s) (''H2O'', ''g'') of Inl e \<Rightarrow> Inl e | Inr c2 \<Rightarrow>
       (case quad c2 25 T of (h2, err) \<Rightarrow>
       (case getitem (Cp s) (''N2'', ''g'') of Inl e \<Rightarrow> Inl e | Inr c3 \<Rightarrow>
       (case quad c3 25 T of (h3, err) \<Rightarrow>
       (case getitem (n s) ''CO2'' of Inl e \<Rightarrow> Inl e | Inr n1 \<Rightarrow>
       (case getitem (n s) ''H2O'' of Inl e \<Rightarrow> Inl e | Inr n2 \<Rightarrow>
       (case getitem (n s) ''N2'' of Inl e \<Rightarrow> Inl e | Inr n3 \<Rightarrow>
          Inr (n1 * h1 + n2 * h2 + n3 * h3)))))))))),
      s)"

text \<open>
  \<^verbatim>\<open>f = lambda T: DeltaH_Rxn + DeltaH_Prod(T)\<close>

  The left operand is read before the call is made.
\<close>

definition f ::
  "quad_fn \<Rightarrow> 'a notebook_scheme \<Rightarrow> real \<Rightarrow> (error + real) \<times> 'a notebook_scheme" where
  "f quad s T =
     (let d = DeltaH_Rxn s in
      case DeltaH_Prod quad s T of
        (Inl e, s') \<Rightarrow> (Inl e, s')
      | (Inr h, s') \<Rightarrow> (Inr (d + h), s'))"

text \<open>
  \<^verbatim>\<open>[f(T) for T in T]\<close>, the comprehension of the plotting cell: \<open>f\<close> is called on each
  temperature in turn, each call starting from the globals the previous one left, and
  the first exception ends the comprehension.
\<close>

fun f_comprehension ::
  "quad_fn \<Rightarrow> 'a notebook_scheme \<Rightarrow> real list \<Rightarrow> (error + real list) \<times> 'a notebook_scheme" where
  "f_comprehension quad s [] = (Inr [], s)"
| "f_comprehension quad s (T # Ts) =
     (case f quad s T of
        (Inl e, s') \<Rightarrow> (Inl e, s')
      | (Inr y, s') \<Rightarrow>
          (case f_comprehension quad s' Ts of
             (Inl e, s'') \<Rightarrow> (Inl e, s'')
           | (Inr ys, s'') \<Rightarrow> (Inr (y # ys), s'')))"

text \<open>
  \<^verbatim>\<open>T = brentq(f,25,3000)\<close>

  The root finder receives \<open>f\<close> as a function of the temperature alone: the value of
  each call, made on the globals as they are when the cell runs.
\<close>

definition brentq_cell :: "quad_fn \<Rightarrow> brentq_fn \<Rightarrow> 'a notebook_scheme \<Rightarrow> error + real" where
  "brentq_cell quad brentq s = brentq (\<lambda>T. fst (f quad s T)) 25 3000"

subsection \<open>The print loop of the first cell\<close>






subsection \<open>What is assumed of the library\<close>

text \<open>
  \<^verbatim>\<open>quad\<close> computes the definite integral. For an integrand \<open>g\<close> that has an
  antiderivative \<open>G\<close> on the whole line, the integral from \<open>a\<close> to \<open>b\<close> is \<open>G b - G a\<close>;
  nothing is assumed about other integrands or about the error estimate.
\<close>

definition quad_exact :: "quad_fn \<Rightarrow> bool" where
  "quad_exact quad \<longleftrightarrow>
     (\<forall>g G a b. (\<forall>x. (G has_real_derivative g x) (at x)) \<longrightarrow> fst (quad g a b) = G b - G a)"

text \<open>
  \<^verbatim>\<open>brentq(g, a, b)\<close> on a function that raises nowhere in the bracket and is continuous
  there: when \<open>g a\<close> and \<open>g b\<close> have the same strict sign it raises \<^verbatim>\<open>ValueError\<close>;
  otherwise it returns a point of the bracket no further than \<open>tol\<close> from a zero of \<open>g\<close>
  in the bracket. \<open>tol\<close> stands for the solver's tolerance; \<open>tol = 0\<close> is an exact solver.
\<close>

definition brentq_spec :: "real \<Rightarrow> brentq_fn \<Rightarrow> bool" where
  "brentq_spec tol brentq \<longleftrightarrow>
     (\<forall>g h a b.
        (\<forall>x. a \<le> x \<and> x \<le> b \<longrightarrow> g x = Inr (h x)) \<and> a < b \<and> continuous_on {a..b} h \<longrightarrow>
        (if 0 < h a * h b then brentq g a b = Inl ValueError
         else (\<exists>x r. brentq g a b = Inr x \<and> a \<le> x \<and> x \<le> b \<and>
                     a \<le> r \<and> r \<le> b \<and> h r = 0 \<and> \<bar>x - r\<bar> \<le> tol)))"

text \<open>
  One function for each predicate, to show that the assumptions can be met: the integral
  read off an antiderivative, and a root finder that returns an exact zero.
\<close>

definition ideal_quad :: quad_fn where
  "ideal_quad g a b =
     (if \<exists>G. \<forall>x. (G has_real_derivative g x) (at x)
      then (let G = (SOME G. \<forall>x. (G has_real_derivative g x) (at x)) in (G b - G a, 0))
      else (0, 0))"

definition ideal_brentq :: brentq_fn where
  "ideal_brentq g a b =
     (case g a of Inl e \<Rightarrow> Inl e | Inr ya \<Rightarrow>
     (case g b of Inl e \<Rightarrow> Inl e | Inr yb \<Rightarrow>
        if 0 < ya * yb then Inl ValueError
        else Inr (SOME x. a \<le> x \<and> x \<le> b \<and> g x = Inr 0)))"

subsection \<open>The closed forms\<close>

text \<open>
  Each cubic integrated term by term, and the enthalpy change of the products and the
  enthalpy balance written with these antiderivatives. These are the closed forms that
  the functions of the notebook are compared with.
\<close>

definition int_Cp_CO2_g :: "real \<Rightarrow> real" where
  "int_Cp_CO2_g T =
     36.11 * T + 4.233 / 10 ^ 2 * T ^ 2 / 2 - 2.887 / 10 ^ 5 * T ^ 3 / 3 + 7.464 / 10 ^ 9 * T ^ 4 / 4"

definition int_Cp_H2O_g :: "real \<Rightarrow> real" where
  "int_Cp_H2O_g T =
     33.46 * T + 0.688 / 10 ^ 2 * T ^ 2 / 2 + 0.7604 / 10 ^ 5 * T ^ 3 / 3 - 3.593 / 10 ^ 9 * T ^ 4 / 4"

definition int_Cp_N2_g :: "real \<Rightarrow> real" where
  "int_Cp_N2_g T =
     29.00 * T + 0.2199 / 10 ^ 2 * T ^ 2 / 2 + 0.5723 / 10 ^ 5 * T ^ 3 / 3 - 2.871 / 10 ^ 9 * T ^ 4 / 4"

definition DeltaH_Prod_closed :: "real \<Rightarrow> real" where
  "DeltaH_Prod_closed T =
     1 * (int_Cp_CO2_g T - int_Cp_CO2_g 25) + 2 * (int_Cp_H2O_g T - int_Cp_H2O_g 25)
       + 3 * (0.79 / 0.21) * (int_Cp_N2_g T - int_Cp_N2_g 25)"

definition f_closed :: "real \<Rightarrow> real" where
  "f_closed T = - 890400 + DeltaH_Prod_closed T"

section \<open>The library assumptions can be met\<close>

text \<open>
  Two antiderivatives of one function differ by a constant, so the value of \<open>ideal_quad\<close>
  does not depend on the antiderivative chosen.
\<close>

lemma ideal_quad_exact: "quad_exact ideal_quad"
  unfolding quad_exact_def
proof (intro allI impI)
  fix g G :: "real \<Rightarrow> real" and a b :: real
  assume G: "\<forall>x. (G has_real_derivative g x) (at x)"
  define G' where "G' = (SOME G. \<forall>x. (G has_real_derivative g x) (at x))"
  have G': "\<forall>x. (G' has_real_derivative g x) (at x)"
    unfolding G'_def using G by (rule someI [of "\<lambda>G. \<forall>x. (G has_real_derivative g x) (at x)"])
  have "\<forall>x. ((\<lambda>x. G x - G' x) has_real_derivative 0) (at x)"
    using G G' by (auto intro!: derivative_eq_intros)
  then have "G b - G' b = G a - G' a"
    by (rule DERIV_isconst_all)
  moreover have "fst (ideal_quad g a b) = G' b - G' a"
    using G by (auto simp: ideal_quad_def G'_def Let_def)
  ultimately show "fst (ideal_quad g a b) = G b - G a"
    by simp
qed

text \<open>
  A continuous function that is not of one strict sign at the two ends of the bracket has
  a zero in it, by the intermediate value theorem.
\<close>

lemma ideal_brentq_spec: "brentq_spec 0 ideal_brentq"
  unfolding brentq_spec_def
proof (intro allI impI, elim conjE)
  fix g :: "real \<Rightarrow> error + real" and h :: "real \<Rightarrow> real" and a b :: real
  assume gh: "\<forall>x. a \<le> x \<and> x \<le> b \<longrightarrow> g x = Inr (h x)" and ab: "a < b"
    and cont: "continuous_on {a..b} h"
  have ga: "g a = Inr (h a)" and gb: "g b = Inr (h b)"
    using gh ab by auto
  show "if 0 < h a * h b then ideal_brentq g a b = Inl ValueError
        else \<exists>x r. ideal_brentq g a b = Inr x \<and> a \<le> x \<and> x \<le> b \<and> a \<le> r \<and> r \<le> b \<and> h r = 0 \<and> \<bar>x - r\<bar> \<le> 0"
  proof (cases "0 < h a * h b")
    case True
    then show ?thesis by (simp add: ideal_brentq_def ga gb)
  next
    case False
    then have "(h a \<le> 0 \<and> 0 \<le> h b) \<or> (h b \<le> 0 \<and> 0 \<le> h a)"
      by (metis linorder_not_less mult_pos_pos mult_neg_neg linear)
    then have "\<exists>x. a \<le> x \<and> x \<le> b \<and> h x = 0"
      using IVT'[of h a 0 b] IVT2'[of h b 0 a] ab cont by auto
    then have "\<exists>x. a \<le> x \<and> x \<le> b \<and> g x = Inr 0"
      using gh by auto
    then have "(\<lambda>x. a \<le> x \<and> x \<le> b \<and> g x = Inr 0) (SOME x. a \<le> x \<and> x \<le> b \<and> g x = Inr 0)"
      by (rule someI_ex)
    moreover define r where "r = (SOME x. a \<le> x \<and> x \<le> b \<and> g x = Inr 0)"
    ultimately have r: "a \<le> r" "r \<le> b" "g r = Inr 0" by auto
    then have "h r = 0" using gh by auto
    moreover have "ideal_brentq g a b = Inr r"
      using False by (simp add: ideal_brentq_def ga gb r_def)
    ultimately show ?thesis using False r by auto
  qed
qed

section \<open>The functions on the data of the notebook\<close>

subsection \<open>Lookups and the shape of the result\<close>

lemma getitem_Cp_cell:
  "getitem Cp_cell (''CO2'', ''g'') = Inr Cp_CO2_g"
  "getitem Cp_cell (''H2O'', ''g'') = Inr Cp_H2O_g"
  "getitem Cp_cell (''N2'', ''g'') = Inr Cp_N2_g"
  by (simp_all add: getitem_def Cp_cell_def)

lemma getitem_n_cell:
  "getitem n_cell ''CO2'' = Inr 1"
  "getitem n_cell ''H2O'' = Inr 2"
  "getitem n_cell ''N2'' = Inr (3 * (0.79 / 0.21))"
  by (simp_all add: getitem_def n_cell_def)

lemma DeltaH_Prod_data:
  assumes "n s = n_cell" and "Cp s = Cp_cell"
  shows "fst (DeltaH_Prod quad s T) =
    Inr (1 * fst (quad Cp_CO2_g 25 T) + 2 * fst (quad Cp_H2O_g 25 T)
          + 3 * (0.79 / 0.21) * fst (quad Cp_N2_g 25 T))"
  by (simp add: DeltaH_Prod_def assms getitem_Cp_cell getitem_n_cell split: prod.splits)

lemma the_notebook_fields:
  "n the_notebook = n_cell" "Cp the_notebook = Cp_cell" "DeltaH_Rxn the_notebook = - 890400"
  by (simp_all add: the_notebook_def)

lemma snd_DeltaH_Prod: "snd (DeltaH_Prod quad s T) = s"
  by (simp add: DeltaH_Prod_def)

lemma snd_f: "snd (f quad s T) = s"
  using snd_DeltaH_Prod [of quad s T]
  by (auto simp: f_def Let_def split: prod.splits sum.splits)

lemma fst_f: "fst (f quad s T) =
   (case fst (DeltaH_Prod quad s T) of Inl e \<Rightarrow> Inl e | Inr h \<Rightarrow> Inr (DeltaH_Rxn s + h))"
  by (auto simp: f_def Let_def split: prod.splits sum.splits)

lemma snd_f_comprehension: "snd (f_comprehension quad s Ts) = s"
proof (induction Ts arbitrary: s)
  case Nil
  show ?case by simp
next
  case (Cons T Ts)
  show ?case
    using snd_f [of quad s T] Cons.IH [of s]
    by (auto split: prod.splits sum.splits)
qed

subsection \<open>The integrals in closed form\<close>

lemma DERIV_int_Cp_CO2_g: "(int_Cp_CO2_g has_real_derivative Cp_CO2_g x) (at x)"
  unfolding int_Cp_CO2_g_def [abs_def] Cp_CO2_g_def
  by (auto intro!: derivative_eq_intros simp: power2_eq_square power3_eq_cube)

lemma DERIV_int_Cp_H2O_g: "(int_Cp_H2O_g has_real_derivative Cp_H2O_g x) (at x)"
  unfolding int_Cp_H2O_g_def [abs_def] Cp_H2O_g_def
  by (auto intro!: derivative_eq_intros simp: power2_eq_square power3_eq_cube)

lemma DERIV_int_Cp_N2_g: "(int_Cp_N2_g has_real_derivative Cp_N2_g x) (at x)"
  unfolding int_Cp_N2_g_def [abs_def] Cp_N2_g_def
  by (auto intro!: derivative_eq_intros simp: power2_eq_square power3_eq_cube)

lemma quad_exact_Cp:
  assumes "quad_exact quad"
  shows "fst (quad Cp_CO2_g a b) = int_Cp_CO2_g b - int_Cp_CO2_g a"
    and "fst (quad Cp_H2O_g a b) = int_Cp_H2O_g b - int_Cp_H2O_g a"
    and "fst (quad Cp_N2_g a b) = int_Cp_N2_g b - int_Cp_N2_g a"
  using assms DERIV_int_Cp_CO2_g DERIV_int_Cp_H2O_g DERIV_int_Cp_N2_g
  unfolding quad_exact_def by blast+

lemma DeltaH_Prod_closed_form:
  assumes "quad_exact quad" and "n s = n_cell" and "Cp s = Cp_cell"
  shows "fst (DeltaH_Prod quad s T) = Inr (DeltaH_Prod_closed T)"
  by (simp only: DeltaH_Prod_data [OF assms(2,3)] quad_exact_Cp [OF assms(1)] DeltaH_Prod_closed_def)

lemma f_closed_form:
  assumes "quad_exact quad" and "n s = n_cell" and "Cp s = Cp_cell" and "DeltaH_Rxn s = - 890400"
  shows "fst (f quad s T) = Inr (f_closed T)"
  by (simp add: fst_f DeltaH_Prod_closed_form [OF assms(1-3)] assms(4) f_closed_def)

lemma f_data:
  assumes "quad_exact quad"
  shows "fst (f quad the_notebook T) = Inr (f_closed T)"
  using f_closed_form [OF assms the_notebook_fields] .

subsection \<open>Values, continuity and monotonicity of the enthalpy balance\<close>

lemma f_closed_25: "f_closed 25 = - 890400"
  by (simp add: f_closed_def DeltaH_Prod_closed_def)

lemma f_closed_3000: "0 < f_closed 3000"
  by (simp add: f_closed_def DeltaH_Prod_closed_def int_Cp_CO2_g_def int_Cp_H2O_g_def int_Cp_N2_g_def)

lemma f_closed_lo: "f_closed 1765.455 < 0"
  by (simp add: f_closed_def DeltaH_Prod_closed_def int_Cp_CO2_g_def int_Cp_H2O_g_def int_Cp_N2_g_def power_divide)

lemma f_closed_hi: "0 < f_closed 1765.457"
  by (simp add: f_closed_def DeltaH_Prod_closed_def int_Cp_CO2_g_def int_Cp_H2O_g_def int_Cp_N2_g_def power_divide)

lemma DERIV_f_closed:
  "(f_closed has_real_derivative
      (1 * Cp_CO2_g x + 2 * Cp_H2O_g x + 3 * (0.79 / 0.21) * Cp_N2_g x)) (at x)"
  unfolding f_closed_def [abs_def] DeltaH_Prod_closed_def
  by (rule derivative_eq_intros DERIV_int_Cp_CO2_g DERIV_int_Cp_H2O_g DERIV_int_Cp_N2_g refl
        | simp)+

lemma continuous_on_f_closed: "continuous_on A f_closed"
  by (rule DERIV_continuous_on) (rule has_field_derivative_at_within, rule DERIV_f_closed)

lemma Cp_CO2_g_pos:
  assumes "0 \<le> T"
  shows "0 < Cp_CO2_g T"
proof -
  have "4.233 / 10 ^ 2 - 2.887 / 10 ^ 5 * T + 7.464 / 10 ^ 9 * T ^ 2
      = 7.464 / 10 ^ 9 * (T - 3608750 / 1866) ^ 2 + (4.233 / 10 ^ 2 - 7.464 / 10 ^ 9 * (3608750 / 1866) ^ 2)"
    by (simp add: power2_eq_square algebra_simps)
  moreover have "0 \<le> 7.464 / 10 ^ 9 * (T - 3608750 / 1866) ^ 2"
    by simp
  moreover have "(0::real) < 4.233 / 10 ^ 2 - 7.464 / 10 ^ 9 * (3608750 / 1866) ^ 2"
    by (simp add: power_divide)
  ultimately have q: "0 < 4.233 / 10 ^ 2 - 2.887 / 10 ^ 5 * T + 7.464 / 10 ^ 9 * T ^ 2"
    by linarith
  have "Cp_CO2_g T = 36.11 + T * (4.233 / 10 ^ 2 - 2.887 / 10 ^ 5 * T + 7.464 / 10 ^ 9 * T ^ 2)"
    by (simp add: Cp_CO2_g_def power2_eq_square power3_eq_cube algebra_simps)
  moreover have "0 \<le> T * (4.233 / 10 ^ 2 - 2.887 / 10 ^ 5 * T + 7.464 / 10 ^ 9 * T ^ 2)"
    using assms q by (intro mult_nonneg_nonneg) auto
  ultimately show ?thesis by simp
qed

lemma cubic_tail_bound:
  fixes T c d m :: real
  assumes T: "0 \<le> T" "T \<le> 3000" and d: "0 \<le> d" and m: "c - d * 3000 = m" "m \<le> 0"
  shows "3000 ^ 2 * m \<le> c * T ^ 2 - d * T ^ 3"
proof -
  have T2: "T ^ 2 \<le> 3000 ^ 2"
    using T by (intro power_mono) auto
  have "m \<le> c - d * T"
    using mult_left_mono [OF T(2) d] m(1) by linarith
  then have "T ^ 2 * m \<le> T ^ 2 * (c - d * T)"
    by (intro mult_left_mono) auto
  moreover have "3000 ^ 2 * m \<le> T ^ 2 * m"
    using T2 m(2) by (intro mult_right_mono_neg) auto
  moreover have "T ^ 2 * (c - d * T) = c * T ^ 2 - d * T ^ 3"
    by (simp add: power2_eq_square power3_eq_cube algebra_simps)
  ultimately show ?thesis by linarith
qed

lemma Cp_H2O_g_pos:
  assumes "0 \<le> T" "T \<le> 3000"
  shows "0 < Cp_H2O_g T"
proof -
  have "3000 ^ 2 * (- 3.175 / 10 ^ 6) \<le> 0.7604 / 10 ^ 5 * T ^ 2 - 3.593 / 10 ^ 9 * T ^ 3"
    using assms by (intro cubic_tail_bound) auto
  moreover have "0 \<le> 0.688 / 10 ^ 2 * T"
    using assms by simp
  ultimately show ?thesis
    unfolding Cp_H2O_g_def by simp
qed

lemma Cp_N2_g_pos:
  assumes "0 \<le> T" "T \<le> 3000"
  shows "0 < Cp_N2_g T"
proof -
  have "3000 ^ 2 * (- 2.89 / 10 ^ 6) \<le> 0.5723 / 10 ^ 5 * T ^ 2 - 2.871 / 10 ^ 9 * T ^ 3"
    using assms by (intro cubic_tail_bound) auto
  moreover have "0 \<le> 0.2199 / 10 ^ 2 * T"
    using assms by simp
  ultimately show ?thesis
    unfolding Cp_N2_g_def by simp
qed

lemma f_closed_strict_mono:
  assumes "0 \<le> a" "a < b" "b \<le> 3000"
  shows "f_closed a < f_closed b"
proof (rule DERIV_pos_imp_increasing [OF assms(2)])
  fix x assume x: "a \<le> x" "x \<le> b"
  then have "0 \<le> x" "x \<le> 3000" using assms by auto
  then have "0 < 1 * Cp_CO2_g x + 2 * Cp_H2O_g x + 3 * (0.79 / 0.21) * Cp_N2_g x"
    using Cp_CO2_g_pos [of x] Cp_H2O_g_pos [of x] Cp_N2_g_pos [of x]
    by (intro add_pos_pos mult_pos_pos) auto
  then show "\<exists>y. (f_closed has_real_derivative y) (at x) \<and> 0 < y"
    using DERIV_f_closed [of x] by blast
qed

subsection \<open>The root search\<close>

lemma brentq_cell_data:
  assumes q: "quad_exact quad" and b: "brentq_spec tol brentq"
  shows "\<exists>T r. brentq_cell quad brentq the_notebook = Inr T \<and> 25 \<le> T \<and> T \<le> 3000 \<and>
               25 \<le> r \<and> r \<le> 3000 \<and> f_closed r = 0 \<and> \<bar>T - r\<bar> \<le> tol"
proof -
  have "\<not> 0 < f_closed 25 * f_closed 3000"
    using f_closed_3000 by (simp add: f_closed_25 mult_less_0_iff not_less mult_le_0_iff)
  moreover have "\<forall>x. 25 \<le> x \<and> x \<le> 3000 \<longrightarrow> fst (f quad the_notebook x) = Inr (f_closed x)"
    using f_data [OF q] by simp
  moreover have "continuous_on {25..3000} f_closed"
    by (rule continuous_on_f_closed)
  moreover note b [unfolded brentq_spec_def, rule_format,
        of 25 3000 "\<lambda>T. fst (f quad the_notebook T)" f_closed]
  ultimately show ?thesis
    by (simp add: brentq_cell_def)
qed

lemma f_closed_mono:
  assumes "0 \<le> a" "a \<le> b" "b \<le> 3000"
  shows "f_closed a \<le> f_closed b"
proof (cases "a = b")
  case True
  then show ?thesis by simp
next
  case False
  then have "a < b" using assms(2) by simp
  then have "f_closed a < f_closed b"
    using assms by (intro f_closed_strict_mono)
  then show ?thesis by simp
qed

lemma root_location:
  assumes "25 \<le> r" "r \<le> 3000" "f_closed r = 0"
  shows "1765.455 < r \<and> r < 1765.457"
proof -
  have "\<not> r \<le> 1765.455"
  proof
    assume "r \<le> 1765.455"
    then have "f_closed r \<le> f_closed 1765.455"
      using assms by (intro f_closed_mono) auto
    then show False using f_closed_lo assms(3) by simp
  qed
  moreover have "\<not> 1765.457 \<le> r"
  proof
    assume "1765.457 \<le> r"
    then have "f_closed 1765.457 \<le> f_closed r"
      using assms by (intro f_closed_mono) auto
    then show False using f_closed_hi assms(3) by simp
  qed
  ultimately show ?thesis by simp
qed

lemma root_unique:
  assumes "0 \<le> r1" "r1 \<le> 3000" "0 \<le> r2" "r2 \<le> 3000" "f_closed r1 = f_closed r2"
  shows "r1 = r2"
proof (rule ccontr)
  assume "r1 \<noteq> r2"
  then consider "r1 < r2" | "r2 < r1" by linarith
  then show False
  proof cases
    case 1
    then show False using f_closed_strict_mono [of r1 r2] assms by simp
  next
    case 2
    then show False using f_closed_strict_mono [of r2 r1] assms by simp
  qed
qed

subsection \<open>The error branches are taken on other data\<close>

text \<open>
  With an empty dict \<open>n\<close> the lookup in \<open>DeltaH_Prod\<close> raises, and on a function that is
  positive at both ends of the bracket the root finder raises.
\<close>

lemma DeltaH_Prod_KeyError:
  "fst (DeltaH_Prod quad \<lparr>n = Map.empty, Cp = Cp_cell, DeltaH_Rxn = - 890400\<rparr> T) = Inl KeyError"
  unfolding DeltaH_Prod_def fst_conv notebook.select_convs getitem_Cp_cell
  by (simp add: getitem_def split: prod.splits)

lemma ideal_brentq_ValueError:
  "ideal_brentq (\<lambda>T. Inr (1 + T)) 25 3000 = Inl ValueError"
  by (simp add: ideal_brentq_def)

subsection \<open>Rounding to one decimal\<close>

lemma round_tenths:
  fixes T :: real
  assumes "1765.45 < T" and "T < 1765.55"
  shows "round (10 * T) = 17655"
  unfolding round_def using assms by (intro floor_unique) simp_all

subsection \<open>What the functions read, and the lines of the print loop\<close>









section \<open>The claims\<close>

text \<open>
  Claim C1. The temperature that the root search over the bracket from 25 to 3000
  returns lies strictly between 1765.45 and 1765.55, so that rounded to one decimal, as
  \<^verbatim>\<open>'{:6.1f}'.format(T)\<close> prints it, it is 17655 tenths, that is 1765.5; and it lies in
  the range from 1765 to 1786. This holds with an exact integrator and a root finder
  whose tolerance is at most one thousandth of a degree.
\<close>

theorem flame_temperature_printed:
  assumes "quad_exact quad" and "brentq_spec tol brentq" and "tol \<le> 1 / 1000"
  shows "\<exists>T. brentq_cell quad brentq the_notebook = Inr T \<and>
             1765.45 < T \<and> T < 1765.55 \<and> round (10 * T) = 17655 \<and>
             1765 \<le> T \<and> T \<le> 1786"
proof -
  obtain T r where *: "brentq_cell quad brentq the_notebook = Inr T" "25 \<le> r" "r \<le> 3000"
      "f_closed r = 0" "\<bar>T - r\<bar> \<le> tol"
    using brentq_cell_data [OF assms(1,2)] by blast
  have "1765.455 < r \<and> r < 1765.457"
    using *(2-4) by (rule root_location)
  then have T: "1765.45 < T" "T < 1765.55" "1765 \<le> T" "T \<le> 1786"
    using *(5) assms(3) by (simp_all add: abs_le_iff)
  have "round (10 * T) = 17655"
    using T(1,2) by (rule round_tenths)
  then show ?thesis using *(1) T by blast
qed

theorem flame_temperature_printed_witness:
  "quad_exact ideal_quad \<and> brentq_spec 0 ideal_brentq \<and> (0::real) \<le> 1 / 1000 \<and>
   (\<exists>T. brentq_cell ideal_quad ideal_brentq the_notebook = Inr T \<and>
        1765.45 < T \<and> T < 1765.55 \<and> round (10 * T) = 17655 \<and>
        1765 \<le> T \<and> T \<le> 1786)"
  using flame_temperature_printed [OF ideal_quad_exact ideal_brentq_spec]
    ideal_quad_exact ideal_brentq_spec
  by simp

text \<open>
  Claim C2. The root search returns a temperature \<open>T\<close> in the bracket, from 25 to 3000,
  that is no further than the solver's tolerance from a temperature \<open>r\<close> of the bracket at
  which the enthalpy balance holds: \<open>f r = DeltaH_Rxn + DeltaH_Prod r = 0\<close>.
\<close>

theorem brentq_cell_solves_balance:
  assumes "quad_exact quad" and "brentq_spec tol brentq"
  shows "\<exists>T r. brentq_cell quad brentq the_notebook = Inr T \<and> 25 \<le> T \<and> T \<le> 3000 \<and>
               25 \<le> r \<and> r \<le> 3000 \<and> \<bar>T - r\<bar> \<le> tol \<and>
               fst (f quad the_notebook r) = Inr 0 \<and>
               fst (f quad the_notebook r) = Inr (DeltaH_Rxn the_notebook + DeltaH_Prod_closed r) \<and>
               fst (DeltaH_Prod quad the_notebook r) = Inr (DeltaH_Prod_closed r)"
proof -
  obtain T r where *: "brentq_cell quad brentq the_notebook = Inr T" "25 \<le> T" "T \<le> 3000"
      "25 \<le> r" "r \<le> 3000" "f_closed r = 0" "\<bar>T - r\<bar> \<le> tol"
    using brentq_cell_data [OF assms] by blast
  have "fst (f quad the_notebook r) = Inr 0"
    using f_data [OF assms(1), of r] *(6) by simp
  moreover have "f_closed r = DeltaH_Rxn the_notebook + DeltaH_Prod_closed r"
    by (simp add: f_closed_def the_notebook_fields)
  moreover have "fst (DeltaH_Prod quad the_notebook r) = Inr (DeltaH_Prod_closed r)"
    using DeltaH_Prod_closed_form [OF assms(1) the_notebook_fields(1,2)] .
  ultimately show ?thesis
    using * f_data [OF assms(1), of r] by metis
qed

theorem brentq_cell_solves_balance_witness:
  "quad_exact ideal_quad \<and> brentq_spec 0 ideal_brentq \<and>
   (\<exists>T. brentq_cell ideal_quad ideal_brentq the_notebook = Inr T \<and> 25 \<le> T \<and> T \<le> 3000 \<and>
        fst (f ideal_quad the_notebook T) = Inr 0)"
proof -
  obtain T r where "brentq_cell ideal_quad ideal_brentq the_notebook = Inr T" "25 \<le> T" "T \<le> 3000"
      "\<bar>T - r\<bar> \<le> 0" "fst (f ideal_quad the_notebook r) = Inr 0"
    using brentq_cell_solves_balance [OF ideal_quad_exact ideal_brentq_spec] by blast
  moreover from this have "T = r" by simp
  ultimately show ?thesis
    using ideal_quad_exact ideal_brentq_spec by blast
qed

text \<open>
  Claim C3. On the data of the notebook \<open>f 25\<close> is negative and \<open>f 3000\<close> is positive, so
  the root finder does not raise \<^verbatim>\<open>ValueError\<close>, and the root search returns a number:
  no lookup raises either.
\<close>

theorem bracket_valid:
  assumes "quad_exact quad" and "brentq_spec tol brentq"
  shows "(\<exists>y. fst (f quad the_notebook 25) = Inr y \<and> y < 0) \<and>
         (\<exists>y. fst (f quad the_notebook 3000) = Inr y \<and> 0 < y) \<and>
         brentq_cell quad brentq the_notebook \<noteq> Inl ValueError \<and>
         (\<exists>T. brentq_cell quad brentq the_notebook = Inr T)"
proof -
  have "fst (f quad the_notebook 25) = Inr (f_closed 25)" "f_closed 25 < 0"
    using f_data [OF assms(1)] by (simp_all add: f_closed_25)
  moreover have "fst (f quad the_notebook 3000) = Inr (f_closed 3000)"
    using f_data [OF assms(1)] by simp
  moreover obtain T where "brentq_cell quad brentq the_notebook = Inr T"
    using brentq_cell_data [OF assms] by blast
  ultimately show ?thesis
    using f_closed_3000 by auto
qed

theorem bracket_valid_witness:
  "quad_exact ideal_quad \<and> brentq_spec 0 ideal_brentq \<and>
   fst (f ideal_quad the_notebook 25) = Inr (- 890400) \<and>
   fst (f ideal_quad the_notebook 3000) = Inr (17254970575387 / 30720000) \<and>
   brentq_cell ideal_quad ideal_brentq the_notebook \<noteq> Inl ValueError \<and>
   (\<exists>T. brentq_cell ideal_quad ideal_brentq the_notebook = Inr T)"
proof -
  have "fst (f ideal_quad the_notebook 25) = Inr (- 890400)"
    using f_data [OF ideal_quad_exact, of 25] by (simp add: f_closed_25)
  moreover have "fst (f ideal_quad the_notebook 3000) = Inr (17254970575387 / 30720000)"
    using f_data [OF ideal_quad_exact, of 3000]
    by (simp add: f_closed_def DeltaH_Prod_closed_def int_Cp_CO2_g_def int_Cp_H2O_g_def int_Cp_N2_g_def)
  ultimately show ?thesis
    using bracket_valid [OF ideal_quad_exact ideal_brentq_spec] ideal_quad_exact ideal_brentq_spec by simp
qed

text \<open>
  Claim C4. For every temperature \<open>T\<close>, \<open>DeltaH_Prod T\<close> is the mole number of carbon
  dioxide times the integral of its heat capacity from 25 to \<open>T\<close>, plus the same for
  water and for nitrogen; and when the integrals are exact it is the closed form got by
  integrating each cubic term by term.
\<close>

theorem DeltaH_Prod_integrals:
  "fst (DeltaH_Prod quad the_notebook T) =
     Inr (1 * fst (quad Cp_CO2_g 25 T) + 2 * fst (quad Cp_H2O_g 25 T)
           + 3 * (0.79 / 0.21) * fst (quad Cp_N2_g 25 T)) \<and>
   (quad_exact quad \<longrightarrow> fst (DeltaH_Prod quad the_notebook T) = Inr (DeltaH_Prod_closed T))"
  using DeltaH_Prod_data [OF the_notebook_fields(1,2)]
    DeltaH_Prod_closed_form [OF _ the_notebook_fields(1,2)]
  by blast

theorem DeltaH_Prod_integrals_witness:
  "quad_exact ideal_quad \<and>
   fst (DeltaH_Prod ideal_quad the_notebook 1000) = Inr (33612936675903 / 71680000)"
proof -
  have "DeltaH_Prod_closed 1000 = 33612936675903 / 71680000"
    by (simp add: DeltaH_Prod_closed_def int_Cp_CO2_g_def int_Cp_H2O_g_def int_Cp_N2_g_def)
  moreover have "fst (DeltaH_Prod ideal_quad the_notebook 1000) = Inr (DeltaH_Prod_closed 1000)"
    using DeltaH_Prod_integrals [of ideal_quad 1000] ideal_quad_exact by blast
  ultimately show ?thesis
    using ideal_quad_exact by (simp only: simp_thms)
qed

text \<open>
  Claim C5. The product moles are exactly one of carbon dioxide, two of water and
  \<open>3 * (0.79 / 0.21)\<close> of nitrogen, which is 11.29 to two decimals; the factor 3 is the
  coefficient of oxygen in the reaction as the notebook writes it; there is no entry for
  oxygen, and \<open>DeltaH_Prod\<close> integrates the heat capacities of these three species only.
\<close>

theorem product_moles:
  "dom (n the_notebook) = {''CO2'', ''H2O'', ''N2''} \<and>
   n the_notebook ''CO2'' = Some 1 \<and>
   n the_notebook ''H2O'' = Some 2 \<and>
   n the_notebook ''N2'' = Some (3 * (0.79 / 0.21)) \<and>
   \<bar>3 * (0.79 / 0.21) - 11.29\<bar> < (0.005 :: real) \<and>
   map_of reactants ''O2'' = Some 3 \<and>
   map_of products ''CO2'' = Some 1 \<and>
   map_of products ''H2O'' = Some 2 \<and>
   n the_notebook ''O2'' = None \<and>
   fst (DeltaH_Prod quad the_notebook T) =
     Inr (1 * fst (quad Cp_CO2_g 25 T) + 2 * fst (quad Cp_H2O_g 25 T)
           + 3 * (0.79 / 0.21) * fst (quad Cp_N2_g 25 T))"
proof -
  have "dom (n the_notebook) = {''CO2'', ''H2O'', ''N2''}"
    by (auto simp: the_notebook_def n_cell_def)
  moreover have "n the_notebook ''CO2'' = Some 1" "n the_notebook ''H2O'' = Some 2"
    "n the_notebook ''N2'' = Some (3 * (0.79 / 0.21))" "n the_notebook ''O2'' = None"
    by (simp_all add: the_notebook_def n_cell_def)
  moreover have "\<bar>3 * (0.79 / 0.21) - 11.29\<bar> < (0.005 :: real)"
    by simp
  moreover have "map_of reactants ''O2'' = Some 3" "map_of products ''CO2'' = Some 1"
    "map_of products ''H2O'' = Some 2"
    by (simp_all add: reactants_def products_def)
  ultimately show ?thesis
    using DeltaH_Prod_data [OF the_notebook_fields(1,2), of quad T] by (simp only: simp_thms)
qed

text \<open>
  Claim C6. The data of the calculation: the dict \<open>n\<close> with its three entries, the dict
  \<open>Cp\<close> defined on exactly the three gas-phase products, each entry a function that
  varies with the temperature, and the number \<open>DeltaH_Rxn = -890400\<close>.
\<close>

theorem calculation_state:
  "dom (n the_notebook) = {''CO2'', ''H2O'', ''N2''} \<and>
   n the_notebook ''CO2'' = Some 1 \<and>
   n the_notebook ''H2O'' = Some 2 \<and>
   n the_notebook ''N2'' = Some (3 * (0.79 / 0.21)) \<and>
   dom (Cp the_notebook) = {(''CO2'', ''g''), (''H2O'', ''g''), (''N2'', ''g'')} \<and>
   Cp the_notebook (''CO2'', ''g'') = Some Cp_CO2_g \<and>
   Cp the_notebook (''H2O'', ''g'') = Some Cp_H2O_g \<and>
   Cp the_notebook (''N2'', ''g'') = Some Cp_N2_g \<and>
   Cp_CO2_g 0 \<noteq> Cp_CO2_g 1000 \<and> Cp_H2O_g 0 \<noteq> Cp_H2O_g 1000 \<and> Cp_N2_g 0 \<noteq> Cp_N2_g 1000 \<and>
   DeltaH_Rxn the_notebook = - 890400"
proof -
  have "dom (n the_notebook) = {''CO2'', ''H2O'', ''N2''}"
    by (auto simp: the_notebook_def n_cell_def)
  moreover have "n the_notebook ''CO2'' = Some 1" "n the_notebook ''H2O'' = Some 2"
    "n the_notebook ''N2'' = Some (3 * (0.79 / 0.21))"
    by (simp_all add: the_notebook_def n_cell_def)
  moreover have "dom (Cp the_notebook) = {(''CO2'', ''g''), (''H2O'', ''g''), (''N2'', ''g'')}"
    by (auto simp: the_notebook_def Cp_cell_def)
  moreover have "Cp the_notebook (''CO2'', ''g'') = Some Cp_CO2_g"
    "Cp the_notebook (''H2O'', ''g'') = Some Cp_H2O_g"
    "Cp the_notebook (''N2'', ''g'') = Some Cp_N2_g"
    by (simp_all add: the_notebook_def Cp_cell_def)
  moreover have "Cp_CO2_g 0 \<noteq> Cp_CO2_g 1000" "Cp_H2O_g 0 \<noteq> Cp_H2O_g 1000"
    "Cp_N2_g 0 \<noteq> Cp_N2_g 1000"
    by (simp_all add: Cp_CO2_g_def Cp_H2O_g_def Cp_N2_g_def)
  moreover have "DeltaH_Rxn the_notebook = - 890400"
    by (simp add: the_notebook_def)
  ultimately show ?thesis by (simp only: simp_thms)
qed

text \<open>
  Claim C7. On the bracket from 25 to 3000 the three heat capacities are positive; the
  mole numbers are positive; \<open>f\<close> is strictly increasing; and \<open>f\<close> has exactly one zero
  \<open>r\<close> there, from which the temperature that the root search returns is no further
  than the solver's tolerance.
\<close>

theorem f_strictly_increasing:
  assumes "quad_exact quad" and "brentq_spec tol brentq"
  shows "(\<forall>T. 25 \<le> T \<and> T \<le> 3000 \<longrightarrow> 0 < Cp_CO2_g T \<and> 0 < Cp_H2O_g T \<and> 0 < Cp_N2_g T) \<and>
         (\<forall>k v. n the_notebook k = Some v \<longrightarrow> 0 < v) \<and>
         (\<forall>a b. 25 \<le> a \<and> a < b \<and> b \<le> 3000 \<longrightarrow>
            (\<exists>ya yb. fst (f quad the_notebook a) = Inr ya \<and>
                     fst (f quad the_notebook b) = Inr yb \<and> ya < yb)) \<and>
         (\<exists>r T. 25 \<le> r \<and> r \<le> 3000 \<and>
            (\<forall>x. 25 \<le> x \<and> x \<le> 3000 \<longrightarrow> (fst (f quad the_notebook x) = Inr 0 \<longleftrightarrow> x = r)) \<and>
            brentq_cell quad brentq the_notebook = Inr T \<and> \<bar>T - r\<bar> \<le> tol)"
proof -
  have pos: "\<forall>T. 25 \<le> T \<and> T \<le> 3000 \<longrightarrow> 0 < Cp_CO2_g T \<and> 0 < Cp_H2O_g T \<and> 0 < Cp_N2_g T"
    using Cp_CO2_g_pos Cp_H2O_g_pos Cp_N2_g_pos by simp
  have moles: "\<forall>k v. n the_notebook k = Some v \<longrightarrow> 0 < v"
    by (auto simp: the_notebook_def n_cell_def split: if_splits)
  have incr: "\<forall>a b. 25 \<le> a \<and> a < b \<and> b \<le> 3000 \<longrightarrow>
            (\<exists>ya yb. fst (f quad the_notebook a) = Inr ya \<and>
                     fst (f quad the_notebook b) = Inr yb \<and> ya < yb)"
    using f_closed_strict_mono by (simp add: f_data [OF assms(1)])
  obtain T r where *: "brentq_cell quad brentq the_notebook = Inr T"
      "25 \<le> r" "r \<le> 3000" "f_closed r = 0" "\<bar>T - r\<bar> \<le> tol"
    using brentq_cell_data [OF assms] by blast
  have "\<forall>x. 25 \<le> x \<and> x \<le> 3000 \<longrightarrow> (fst (f quad the_notebook x) = Inr 0 \<longleftrightarrow> x = r)"
    using root_unique [of _ r] * by (auto simp: f_data [OF assms(1)])
  then have "\<exists>r T. 25 \<le> r \<and> r \<le> 3000 \<and>
            (\<forall>x. 25 \<le> x \<and> x \<le> 3000 \<longrightarrow> (fst (f quad the_notebook x) = Inr 0 \<longleftrightarrow> x = r)) \<and>
            brentq_cell quad brentq the_notebook = Inr T \<and> \<bar>T - r\<bar> \<le> tol"
    using * by blast
  then show ?thesis
    using pos moles incr by (simp only: simp_thms)
qed

theorem f_strictly_increasing_witness:
  "quad_exact ideal_quad \<and> brentq_spec 0 ideal_brentq \<and>
   0 < Cp_CO2_g 3000 \<and> 0 < Cp_H2O_g 3000 \<and> 0 < Cp_N2_g 3000 \<and>
   (\<exists>ya yb. fst (f ideal_quad the_notebook 25) = Inr ya \<and>
            fst (f ideal_quad the_notebook 3000) = Inr yb \<and> ya < yb) \<and>
   (\<exists>T. brentq_cell ideal_quad ideal_brentq the_notebook = Inr T \<and>
        fst (f ideal_quad the_notebook T) = Inr 0 \<and>
        fst (f ideal_quad the_notebook 25) \<noteq> Inr 0)"
proof -
  note inst = f_strictly_increasing [OF ideal_quad_exact ideal_brentq_spec]
  have "0 < Cp_CO2_g 3000 \<and> 0 < Cp_H2O_g 3000 \<and> 0 < Cp_N2_g 3000"
    using inst by simp
  moreover have "\<exists>ya yb. fst (f ideal_quad the_notebook 25) = Inr ya \<and>
            fst (f ideal_quad the_notebook 3000) = Inr yb \<and> ya < yb"
    using inst by simp
  moreover have "\<exists>T. brentq_cell ideal_quad ideal_brentq the_notebook = Inr T \<and>
        fst (f ideal_quad the_notebook T) = Inr 0 \<and>
        fst (f ideal_quad the_notebook 25) \<noteq> Inr 0"
  proof -
    obtain r T where *: "25 \<le> r" "r \<le> 3000"
      "\<forall>x. 25 \<le> x \<and> x \<le> 3000 \<longrightarrow> (fst (f ideal_quad the_notebook x) = Inr 0 \<longleftrightarrow> x = r)"
      "brentq_cell ideal_quad ideal_brentq the_notebook = Inr T" "\<bar>T - r\<bar> \<le> 0"
      using inst by blast
    have "T = r" using *(5) by simp
    moreover have "fst (f ideal_quad the_notebook 25) = Inr (- 890400)"
      using f_data [OF ideal_quad_exact, of 25] by (simp add: f_closed_25)
    ultimately show ?thesis using * by auto
  qed
  ultimately show ?thesis
    using ideal_quad_exact ideal_brentq_spec by (simp only: simp_thms)
qed

text \<open>
  Claim C8. A call of \<open>DeltaH_Prod\<close> or of \<open>f\<close>, and a run of calls of \<open>f\<close> one after
  the other, returns the globals as it found them, whatever else they hold; a second
  call therefore computes what it would have computed before the first.
\<close>

theorem evaluation_frame:
  "snd (DeltaH_Prod quad s T) = s \<and> snd (f quad s T) = s \<and>
   snd (f_comprehension quad s Ts) = s \<and>
   DeltaH_Prod quad (snd (DeltaH_Prod quad s T)) T' = DeltaH_Prod quad s T' \<and>
   f quad (snd (f quad s T)) T' = f quad s T'"
  by (simp add: snd_DeltaH_Prod snd_f snd_f_comprehension)

theorem evaluation_frame_witness:
  "snd (DeltaH_Prod ideal_quad the_notebook 1000) = the_notebook \<and>
   snd (f ideal_quad the_notebook 1000) = the_notebook \<and>
   snd (f_comprehension ideal_quad the_notebook [25, 1000, 3000]) = the_notebook \<and>
   n (snd (f ideal_quad the_notebook 1000)) ''N2'' = Some (79 / 7) \<and>
   DeltaH_Rxn (snd (f ideal_quad the_notebook 1000)) = - 890400"
  using evaluation_frame [of ideal_quad the_notebook 1000 "[25, 1000, 3000]" 1000]
  by (simp add: the_notebook_def n_cell_def)




text \<open>
  Claim C10. At the reference temperature of 25 degrees the integrals run over an empty
  interval: \<open>DeltaH_Prod 25 = 0\<close>, and so \<open>f 25 = DeltaH_Rxn = -890400\<close>.
\<close>

theorem DeltaH_Prod_reference_state:
  assumes "quad_exact quad"
  shows "fst (DeltaH_Prod quad the_notebook 25) = Inr 0 \<and>
         fst (f quad the_notebook 25) = Inr (DeltaH_Rxn the_notebook) \<and>
         DeltaH_Rxn the_notebook = - 890400"
proof -
  have "DeltaH_Prod_closed 25 = 0"
    by (simp add: DeltaH_Prod_closed_def)
  then show ?thesis
    using DeltaH_Prod_closed_form [OF assms the_notebook_fields(1,2), of 25]
    by (simp add: fst_f the_notebook_fields)
qed

theorem DeltaH_Prod_reference_state_witness:
  "quad_exact ideal_quad \<and> fst (DeltaH_Prod ideal_quad the_notebook 25) = Inr 0 \<and>
   fst (f ideal_quad the_notebook 25) = Inr (- 890400)"
  using DeltaH_Prod_reference_state [OF ideal_quad_exact] ideal_quad_exact by simp

end
